theory Spec2Isabelle
  imports Main
begin

section \<open>Values, exceptions and results\<close>

text \<open>
  The module \<^verbatim>\<open>lib/log.py\<close> is glue over CPython's \<^verbatim>\<open>logging\<close>,
  \<^verbatim>\<open>logging.handlers\<close> and \<^verbatim>\<open>traceback\<close>. The three functions of the module
  (\<^verbatim>\<open>handleError\<close>, \<^verbatim>\<open>init_logging\<close>, \<^verbatim>\<open>log_exception\<close>) are embedded
  statement by statement; the library operations they call are embedded from the library's
  own code, each definition naming the library function it follows.

  A Python exception is a value: its class name, its message and the rendered entries of
  its traceback (outermost frame first, as \<^verbatim>\<open>traceback\<close> prints them). The frames
  that an exception gathers while it travels through the library are not modelled: an error
  raised by a modelled library operation carries no entries.
\<close>

datatype pyval = PStr string | PInt int

datatype pyexc = PyExc (exc_type: string) (exc_msg: string) (exc_tb: "string list")

text \<open>
  A call either returns a value or raises; both leave a state behind, since a call that
  raises may already have written to a stream.
\<close>

datatype ('a, 's) result = Return 'a 's | Raise pyexc 's

definition and_then :: "('a, 's) result \<Rightarrow> ('a \<Rightarrow> 's \<Rightarrow> ('b, 's) result) \<Rightarrow> ('b, 's) result" where
  "and_then m k = (case m of Return x s \<Rightarrow> k x s | Raise e s \<Rightarrow> Raise e s)"

fun final_state :: "('a, 's) result \<Rightarrow> 's" where
  "final_state (Return x s) = s"
| "final_state (Raise e s) = s"

fun raised :: "('a, 's) result \<Rightarrow> pyexc option" where
  "raised (Return x s) = None"
| "raised (Raise e s) = Some e"

definition nl :: char where
  "nl = CHR ''\<newline>''"

text \<open>\<^verbatim>\<open>s.split(sep)\<close> for a one-character separator: never an empty list.\<close>

fun str_split :: "char \<Rightarrow> string \<Rightarrow> string list" where
  "str_split sep [] = [[]]"
| "str_split sep (c # cs) =
     (if c = sep then [] # str_split sep cs
      else (case str_split sep cs of [] \<Rightarrow> [[c]] | l # ls \<Rightarrow> (c # l) # ls))"

text \<open>\<^verbatim>\<open>str(n)\<close> for an integer, in decimal.\<close>

definition digit_char :: "nat \<Rightarrow> char" where
  "digit_char d = char_of (48 + d)"

function str_nat :: "nat \<Rightarrow> string" where
  "str_nat n = (if n < 10 then [digit_char n] else str_nat (n div 10) @ [digit_char (n mod 10)])"
  by pat_completeness auto
termination
  by (relation "measure id") auto

declare str_nat.simps [simp del]

definition str_int :: "int \<Rightarrow> string" where
  "str_int i = (if i < 0 then CHR ''-'' # str_nat (nat (- i)) else str_nat (nat i))"

section \<open>The process environment\<close>

text \<open>
  A file is the sequence of operations that streams opened on it have performed. The active
  log file of a handler is \<open>Base path\<close>, its rotated predecessors are \<open>Backup path i\<close>
  (the library's \<^verbatim>\<open>"%s.%d" % (baseFilename, i)\<close>), and \<open>Stderr\<close> is the console.
\<close>

datatype fname = Stderr | Base string | Backup string nat

datatype io_event = Write string | Flush

fun payload :: "io_event \<Rightarrow> string" where
  "payload (Write data) = data"
| "payload Flush = []"

text \<open>
  \<open>io_fault\<close> is the error the operating system currently raises on a write to or a flush
  of a stream (\<open>None\<close>: streams work). \<open>sys_exc_info\<close> is the exception being handled
  (\<^verbatim>\<open>sys.exc_info()\<close>). \<open>asctime\<close> and \<open>threadName\<close> are the rendered time and the name of
  the calling thread. \<open>str_mod\<close> is the interpreter's \<^verbatim>\<open>%\<close> operator on a string and
  an argument tuple; it is a parameter of the environment.
\<close>

record env =
  files :: "fname \<rightharpoonup> io_event list"
  io_fault :: "pyexc option"
  sys_exc_info :: "pyexc option"
  asctime :: string
  threadName :: string
  str_mod :: "string \<Rightarrow> pyval list \<Rightarrow> pyexc + string"

definition file_events :: "env \<Rightarrow> fname \<Rightarrow> io_event list" where
  "file_events w f = (case files w f of None \<Rightarrow> [] | Some evs \<Rightarrow> evs)"

definition file_content :: "env \<Rightarrow> fname \<Rightarrow> string" where
  "file_content w f = concat (map payload (file_events w f))"

definition file_exists :: "env \<Rightarrow> fname \<Rightarrow> bool" where
  "file_exists w f = (files w f \<noteq> None)"

text \<open>\<^verbatim>\<open>open(name, 'a')\<close>: creates the file when it is missing, keeps it otherwise.\<close>

definition open_append :: "fname \<Rightarrow> env \<Rightarrow> env" where
  "open_append f w = (if file_exists w f then w else w\<lparr>files := (files w)(f \<mapsto> [])\<rparr>)"

definition stream_write :: "fname \<Rightarrow> string \<Rightarrow> env \<Rightarrow> (unit, env) result" where
  "stream_write f data w =
     (case io_fault w of
        Some e \<Rightarrow> Raise e w
      | None \<Rightarrow> Return () (w\<lparr>files := (files w)(f \<mapsto> file_events w f @ [Write data])\<rparr>))"

definition stream_flush :: "fname \<Rightarrow> env \<Rightarrow> (unit, env) result" where
  "stream_flush f w =
     (case io_fault w of
        Some e \<Rightarrow> Raise e w
      | None \<Rightarrow> Return () (w\<lparr>files := (files w)(f \<mapsto> file_events w f @ [Flush])\<rparr>))"

text \<open>\<^verbatim>\<open>os.remove\<close> and \<^verbatim>\<open>os.rename\<close> (the destination is replaced).\<close>

definition os_remove :: "fname \<Rightarrow> env \<Rightarrow> env" where
  "os_remove f w = w\<lparr>files := (files w)(f := None)\<rparr>"

definition os_rename :: "fname \<Rightarrow> fname \<Rightarrow> env \<Rightarrow> env" where
  "os_rename src dst w = w\<lparr>files := (files w)(dst := files w src, src := None)\<rparr>"

section \<open>The traceback module\<close>

text \<open>
  \<^verbatim>\<open>traceback.format_exc()\<close>: the text of \<^verbatim>\<open>sys.exc_info()\<close>. With no exception
  being handled it is \<^verbatim>\<open>"NoneType: None\n"\<close>; otherwise the header and the stack entries (when
  there are any) and the final line \<^verbatim>\<open>Type: message\<close>, or \<^verbatim>\<open>Type\<close> alone for
  an empty message. Exception chaining is not modelled.
\<close>

definition format_exc :: "pyexc option \<Rightarrow> string" where
  "format_exc ei =
     (case ei of
        None \<Rightarrow> ''NoneType: None\<newline>''
      | Some e \<Rightarrow>
          (if exc_tb e = [] then [] else ''Traceback (most recent call last):\<newline>'' @ concat (exc_tb e))
          @ exc_type e @ (if exc_msg e = [] then [] else '': '' @ exc_msg e) @ ''\<newline>'')"

text \<open>A bare \<^verbatim>\<open>raise\<close> statement.\<close>

definition bare_raise :: "env \<Rightarrow> (unit, env) result" where
  "bare_raise w =
     (case sys_exc_info w of
        None \<Rightarrow> Raise (PyExc ''RuntimeError'' ''No active exception to reraise'' []) w
      | Some e \<Rightarrow> Raise e w)"

section \<open>The logging library\<close>

definition CRITICAL :: int where "CRITICAL = 50"
definition ERROR :: int where "ERROR = 40"
definition WARNING :: int where "WARNING = 30"
definition INFO :: int where "INFO = 20"
definition DEBUG :: int where "DEBUG = 10"
definition NOTSET :: int where "NOTSET = 0"

text \<open>\<^verbatim>\<open>logging.getLevelName\<close> on an integer level.\<close>

definition getLevelName :: "int \<Rightarrow> string" where
  "getLevelName l =
     (if l = CRITICAL then ''CRITICAL'' else if l = ERROR then ''ERROR''
      else if l = WARNING then ''WARNING'' else if l = INFO then ''INFO''
      else if l = DEBUG then ''DEBUG'' else if l = NOTSET then ''NOTSET''
      else ''Level '' @ str_int l)"

text \<open>
  The keyword arguments of a logging call. Of those the library accepts, \<^verbatim>\<open>exc_info\<close>
  is modelled (as a truth value); \<^verbatim>\<open>extra\<close>, \<^verbatim>\<open>stack_info\<close> and
  \<^verbatim>\<open>stacklevel\<close> are not.
\<close>

record kwargs =
  kw_exc_info :: bool

definition no_kwargs :: kwargs where
  "no_kwargs = \<lparr>kw_exc_info = False\<rparr>"

text \<open>
  A \<^verbatim>\<open>LogRecord\<close>. \<open>rec_exc_info\<close> is \<open>None\<close> when no exception information was
  requested and \<open>Some (sys.exc_info())\<close> when it was.
\<close>

record LogRecord =
  name :: string
  levelno :: int
  msg :: string
  args :: "pyval list"
  rec_exc_info :: "pyexc option option"
  rec_asctime :: string
  rec_threadName :: string

text \<open>\<^verbatim>\<open>LogRecord.getMessage\<close>: the arguments are merged only when there are any.\<close>

definition getMessage :: "env \<Rightarrow> LogRecord \<Rightarrow> pyexc + string" where
  "getMessage w r = (if args r \<noteq> [] then str_mod w (msg r) (args r) else Inr (msg r))"

text \<open>
  \<^verbatim>\<open>fmt % record.__dict__\<close> for a format string built from literal text, \<^verbatim>\<open>%%\<close>
  and \<^verbatim>\<open>%(key)s\<close>, which is what both format strings of the program are; any other
  conversion is rejected.
\<close>

datatype scan_mode = Lit | Pct | Key string | Conv string

fun prepend :: "string \<Rightarrow> pyexc + string \<Rightarrow> pyexc + string" where
  "prepend v (Inl e) = Inl e"
| "prepend v (Inr s) = Inr (v @ s)"

fun fmt_mapping :: "scan_mode \<Rightarrow> string \<Rightarrow> (string \<rightharpoonup> string) \<Rightarrow> pyexc + string" where
  "fmt_mapping Lit [] d = Inr []"
| "fmt_mapping Lit (c # cs) d =
     (if c = CHR ''%'' then fmt_mapping Pct cs d else prepend [c] (fmt_mapping Lit cs d))"
| "fmt_mapping Pct [] d = Inl (PyExc ''ValueError'' ''incomplete format'' [])"
| "fmt_mapping Pct (c # cs) d =
     (if c = CHR ''%'' then prepend [c] (fmt_mapping Lit cs d)
      else if c = CHR ''('' then fmt_mapping (Key []) cs d
      else Inl (PyExc ''ValueError'' ''unsupported format character'' []))"
| "fmt_mapping (Key k) [] d = Inl (PyExc ''ValueError'' ''incomplete format key'' [])"
| "fmt_mapping (Key k) (c # cs) d =
     (if c = CHR '')'' then fmt_mapping (Conv k) cs d else fmt_mapping (Key (k @ [c])) cs d)"
| "fmt_mapping (Conv k) [] d = Inl (PyExc ''ValueError'' ''incomplete format'' [])"
| "fmt_mapping (Conv k) (c # cs) d =
     (if c = CHR ''s'' then
        (case d k of
           None \<Rightarrow> Inl (PyExc ''KeyError'' k [])
         | Some v \<Rightarrow> prepend v (fmt_mapping Lit cs d))
      else Inl (PyExc ''ValueError'' ''unsupported format character'' []))"

definition record_dict :: "LogRecord \<Rightarrow> string \<Rightarrow> (string \<rightharpoonup> string)" where
  "record_dict r message =
     [''name'' \<mapsto> name r, ''levelname'' \<mapsto> getLevelName (levelno r),
      ''asctime'' \<mapsto> rec_asctime r, ''threadName'' \<mapsto> rec_threadName r,
      ''message'' \<mapsto> message]"

text \<open>\<^verbatim>\<open>Formatter.formatException\<close>: the traceback text without its final newline.\<close>

definition formatException :: "pyexc option \<Rightarrow> string" where
  "formatException ei =
     (let s = format_exc ei in if s \<noteq> [] \<and> last s = nl then butlast s else s)"

text \<open>
  \<^verbatim>\<open>Formatter.format\<close>: the message, the format string applied to the record, and
  the exception text on a line of its own when the record carries exception information.
\<close>

definition add_exc_text :: "string \<Rightarrow> pyexc option option \<Rightarrow> string" where
  "add_exc_text s rei =
     (case rei of
        None \<Rightarrow> s
      | Some ei \<Rightarrow>
          (let exc_text = formatException ei in
           if exc_text = [] then s
           else (if s \<noteq> [] \<and> last s = nl then s else s @ [nl]) @ exc_text))"

definition Formatter_format :: "string \<Rightarrow> LogRecord \<Rightarrow> env \<Rightarrow> pyexc + string" where
  "Formatter_format fmt r w =
     (case getMessage w r of
        Inl e \<Rightarrow> Inl e
      | Inr message \<Rightarrow>
          (case fmt_mapping Lit fmt (record_dict r message) of
             Inl e \<Rightarrow> Inl e
           | Inr s \<Rightarrow> Inr (add_exc_text s (rec_exc_info r))))"

text \<open>
  A handler. \<open>LoggingErrorHandler\<close> is the module's subclass of
  \<^verbatim>\<open>RotatingFileHandler\<close>; \<open>StreamHandler\<close> is the console handler that a
  \<^verbatim>\<open>basicConfig()\<close> without arguments installs. \<open>stream\<close> is \<open>None\<close> while the
  handler has no open stream.
\<close>

datatype handler_class = LoggingErrorHandler | StreamHandler

record handler =
  hclass :: handler_class
  baseFilename :: string
  mode :: string
  encoding :: "string option"
  maxBytes :: nat
  backupCount :: nat
  delay :: bool
  hlevel :: int
  formatter :: "string option"
  stream :: "fname option"

type_synonym hstate = "handler \<times> env"

definition on_env :: "(env \<Rightarrow> ('a, env) result) \<Rightarrow> hstate \<Rightarrow> ('a, hstate) result" where
  "on_env f hw =
     (case f (snd hw) of
        Return x w' \<Rightarrow> Return x (fst hw, w')
      | Raise e w' \<Rightarrow> Raise e (fst hw, w'))"

text \<open>\<^verbatim>\<open>Handler.format\<close>: the handler's formatter, or the library's default one.\<close>

definition Handler_format :: "handler \<Rightarrow> LogRecord \<Rightarrow> env \<Rightarrow> pyexc + string" where
  "Handler_format h r w =
     Formatter_format (case formatter h of None \<Rightarrow> ''%(message)s'' | Some fmt \<Rightarrow> fmt) r w"

text \<open>\<^verbatim>\<open>StreamHandler.flush\<close>: nothing to do without a stream.\<close>

definition Handler_flush :: "handler \<Rightarrow> env \<Rightarrow> (unit, env) result" where
  "Handler_flush h w = (case stream h of None \<Rightarrow> Return () w | Some f \<Rightarrow> stream_flush f w)"

text \<open>\<^verbatim>\<open>self.stream.write(data)\<close>: an attribute error without a stream.\<close>

definition Handler_stream_write :: "handler \<Rightarrow> string \<Rightarrow> env \<Rightarrow> (unit, env) result" where
  "Handler_stream_write h data w =
     (case stream h of
        None \<Rightarrow> Raise (PyExc ''AttributeError'' ''NoneType object has no attribute write'' []) w
      | Some f \<Rightarrow> stream_write f data w)"

section \<open>The module: the error handler\<close>

definition LOG_MAX_SIZE :: nat where
  "LOG_MAX_SIZE = 1 * 1024 * 1024"

text \<open>The loop \<^verbatim>\<open>for line in ...: self.stream.write(line+"\n")\<close>.\<close>

fun write_lines :: "handler \<Rightarrow> string list \<Rightarrow> env \<Rightarrow> (unit, env) result" where
  "write_lines h [] w = Return () w"
| "write_lines h (line # rest) w =
     (case Handler_stream_write h (line @ ''\<newline>'') w of
        Raise e w' \<Rightarrow> Raise e w'
      | Return u w' \<Rightarrow> write_lines h rest w')"

text \<open>\<^verbatim>\<open>_LoggingErrorHandler.handleError\<close>; the record is not used.\<close>

definition handleError :: "handler \<Rightarrow> LogRecord \<Rightarrow> env \<Rightarrow> (unit, env) result" where
  "handleError h r w =
     and_then (Handler_stream_write h ''Exception in logging module:\<newline>'' w) (\<lambda>u w1.
     and_then (write_lines h (str_split nl (format_exc (sys_exc_info w1))) w1) (\<lambda>u w2.
     and_then (Handler_flush h w2) (\<lambda>u w3.
     bare_raise w3)))"

section \<open>The logging library: emitting a record\<close>

text \<open>
  \<^verbatim>\<open>Handler.handleError\<close> of the library reports on \<^verbatim>\<open>sys.stderr\<close> and returns;
  the report is not modelled. A handler of the module's class uses the override above.
\<close>

definition Handler_handleError :: "LogRecord \<Rightarrow> hstate \<Rightarrow> (unit, hstate) result" where
  "Handler_handleError r hw =
     (case hclass (fst hw) of
        LoggingErrorHandler \<Rightarrow> on_env (handleError (fst hw) r) hw
      | StreamHandler \<Rightarrow> Return () hw)"

text \<open>
  \<^verbatim>\<open>try: body except Exception: handler\<close>. While the handler runs, the caught exception
  is the one being handled; leaving the block restores the previous one.
\<close>

definition set_exc_info :: "pyexc option \<Rightarrow> hstate \<Rightarrow> hstate" where
  "set_exc_info ei hw = (fst hw, (snd hw)\<lparr>sys_exc_info := ei\<rparr>)"

definition try_except :: "(hstate \<Rightarrow> (unit, hstate) result) \<Rightarrow> (hstate \<Rightarrow> (unit, hstate) result)
    \<Rightarrow> hstate \<Rightarrow> (unit, hstate) result" where
  "try_except body handler hw =
     (case body hw of
        Return u hw1 \<Rightarrow> Return u hw1
      | Raise e hw1 \<Rightarrow>
          (case handler (set_exc_info (Some e) hw1) of
             Return u hw2 \<Rightarrow> Return u (set_exc_info (sys_exc_info (snd hw)) hw2)
           | Raise e' hw2 \<Rightarrow> Raise e' (set_exc_info (sys_exc_info (snd hw)) hw2)))"

text \<open>
  \<^verbatim>\<open>StreamHandler.emit\<close>: format, write the text and the terminator, flush; any
  error goes to \<^verbatim>\<open>handleError\<close>.
\<close>

definition StreamHandler_emit :: "LogRecord \<Rightarrow> hstate \<Rightarrow> (unit, hstate) result" where
  "StreamHandler_emit r =
     try_except
       (\<lambda>hw. case Handler_format (fst hw) r (snd hw) of
                Inl e \<Rightarrow> Raise e hw
              | Inr text \<Rightarrow>
                  and_then (on_env (Handler_stream_write (fst hw) (text @ ''\<newline>'')) hw) (\<lambda>u hw1.
                  on_env (Handler_flush (fst hw1)) hw1))
       (Handler_handleError r)"

text \<open>\<^verbatim>\<open>FileHandler._open\<close> and \<^verbatim>\<open>FileHandler.emit\<close>.\<close>

definition FileHandler_open :: "hstate \<Rightarrow> hstate" where
  "FileHandler_open hw =
     ((fst hw)\<lparr>stream := Some (Base (baseFilename (fst hw)))\<rparr>,
      open_append (Base (baseFilename (fst hw))) (snd hw))"

definition FileHandler_emit :: "LogRecord \<Rightarrow> hstate \<Rightarrow> (unit, hstate) result" where
  "FileHandler_emit r hw =
     StreamHandler_emit r (if stream (fst hw) = None then FileHandler_open hw else hw)"

text \<open>
  \<^verbatim>\<open>RotatingFileHandler.shouldRollover\<close>: would the record take the file to
  \<open>maxBytes\<close> or beyond. The log file is a regular file.
\<close>

definition shouldRollover :: "LogRecord \<Rightarrow> hstate \<Rightarrow> (bool, hstate) result" where
  "shouldRollover r hw =
     (let hw1 = (if stream (fst hw) = None then FileHandler_open hw else hw) in
      if maxBytes (fst hw1) > 0 then
        (case Handler_format (fst hw1) r (snd hw1) of
           Inl e \<Rightarrow> Raise e hw1
         | Inr text \<Rightarrow>
             Return (maxBytes (fst hw1)
                       \<le> length (file_content (snd hw1) (Base (baseFilename (fst hw1))))
                          + length (text @ ''\<newline>'')) hw1)
      else Return False hw1)"

text \<open>
  \<^verbatim>\<open>RotatingFileHandler.doRollover\<close>. The loop renames backup \<open>i\<close> to backup
  \<open>i + 1\<close> for \<open>i\<close> from \<open>backupCount - 1\<close> down to \<open>1\<close>; then the active file becomes
  backup \<open>1\<close>. With \<open>backupCount = 0\<close> nothing is renamed and the same file is opened again
  for appending.
\<close>

fun shift_backups :: "string \<Rightarrow> nat \<Rightarrow> env \<Rightarrow> env" where
  "shift_backups b 0 w = w"
| "shift_backups b (Suc i) w =
     shift_backups b i
       (if file_exists w (Backup b (Suc i))
        then os_rename (Backup b (Suc i)) (Backup b (Suc (Suc i)))
               (if file_exists w (Backup b (Suc (Suc i))) then os_remove (Backup b (Suc (Suc i))) w else w)
        else w)"

definition doRollover :: "hstate \<Rightarrow> hstate" where
  "doRollover hw =
     (let h = (fst hw)\<lparr>stream := None\<rparr>;
          b = baseFilename h;
          w1 = (if backupCount h > 0 then
                  (let w2 = shift_backups b (backupCount h - 1) (snd hw);
                       w3 = (if file_exists w2 (Backup b 1) then os_remove (Backup b 1) w2 else w2)
                   in if file_exists w3 (Base b) then os_rename (Base b) (Backup b 1) w3 else w3)
                else snd hw)
      in if \<not> delay h then FileHandler_open (h, w1) else (h, w1))"

text \<open>\<^verbatim>\<open>BaseRotatingHandler.emit\<close>.\<close>

definition BaseRotatingHandler_emit :: "LogRecord \<Rightarrow> hstate \<Rightarrow> (unit, hstate) result" where
  "BaseRotatingHandler_emit r =
     try_except
       (\<lambda>hw. and_then (shouldRollover r hw) (\<lambda>roll hw1.
                FileHandler_emit r (if roll then doRollover hw1 else hw1)))
       (Handler_handleError r)"

definition Handler_emit :: "LogRecord \<Rightarrow> hstate \<Rightarrow> (unit, hstate) result" where
  "Handler_emit r hw =
     (case hclass (fst hw) of
        LoggingErrorHandler \<Rightarrow> BaseRotatingHandler_emit r hw
      | StreamHandler \<Rightarrow> StreamHandler_emit r hw)"

section \<open>The logging library: the root logger\<close>

record state =
  root_level :: int
  root_handlers :: "handler list"
  env :: env

text \<open>
  \<^verbatim>\<open>Logger.callHandlers\<close> on the root logger: each handler whose level admits the
  record emits it, in order; an error raised by a handler ends the loop.
\<close>

fun callHandlers :: "LogRecord \<Rightarrow> handler list \<Rightarrow> env \<Rightarrow> (unit, handler list \<times> env) result" where
  "callHandlers r [] w = Return () ([], w)"
| "callHandlers r (h # hs) w =
     (case (if hlevel h \<le> levelno r then Handler_emit r (h, w) else Return () (h, w)) of
        Raise e hw \<Rightarrow> Raise e (fst hw # hs, snd hw)
      | Return u hw \<Rightarrow>
          (case callHandlers r hs (snd hw) of
             Raise e hsw \<Rightarrow> Raise e (fst hw # fst hsw, snd hsw)
           | Return u' hsw \<Rightarrow> Return () (fst hw # fst hsw, snd hsw)))"

text \<open>
  \<^verbatim>\<open>Logger.isEnabledFor\<close> on the root logger: \<^verbatim>\<open>manager.disable\<close> keeps its
  initial value \<open>0\<close>, which disables the levels up to \<open>0\<close>.
\<close>

definition isEnabledFor :: "state \<Rightarrow> int \<Rightarrow> bool" where
  "isEnabledFor s level = (if 0 \<ge> level then False else root_level s \<le> level)"

definition makeRecord :: "state \<Rightarrow> int \<Rightarrow> string \<Rightarrow> pyval list \<Rightarrow> kwargs \<Rightarrow> LogRecord" where
  "makeRecord s level m a kw =
     \<lparr>name = ''root'', levelno = level, msg = m, args = a,
      rec_exc_info = (if kw_exc_info kw then Some (sys_exc_info (env s)) else None),
      rec_asctime = asctime (env s), rec_threadName = threadName (env s)\<rparr>"

definition Logger_log :: "int \<Rightarrow> string \<Rightarrow> pyval list \<Rightarrow> kwargs \<Rightarrow> state \<Rightarrow> (unit, state) result" where
  "Logger_log level m a kw s =
     (if isEnabledFor s level then
        (case callHandlers (makeRecord s level m a kw) (root_handlers s) (env s) of
           Raise e hsw \<Rightarrow> Raise e (s\<lparr>root_handlers := fst hsw, env := snd hsw\<rparr>)
         | Return u hsw \<Rightarrow> Return () (s\<lparr>root_handlers := fst hsw, env := snd hsw\<rparr>))
      else Return () s)"

text \<open>
  \<^verbatim>\<open>logging.basicConfig(level=..., handlers=..., format=...)\<close>: does nothing when the
  root logger already has a handler. Without \<open>handlers\<close> it installs a console handler.
\<close>

definition BASIC_FORMAT :: string where
  "BASIC_FORMAT = ''%(levelname)s:%(name)s:%(message)s''"

definition console_handler :: handler where
  "console_handler =
     \<lparr>hclass = StreamHandler, baseFilename = [], mode = [], encoding = None, maxBytes = 0,
      backupCount = 0, delay = False, hlevel = NOTSET, formatter = None, stream = Some Stderr\<rparr>"

definition addHandler :: "handler list \<Rightarrow> handler \<Rightarrow> handler list" where
  "addHandler hs h = (if h \<in> set hs then hs else hs @ [h])"

definition basicConfig :: "int option \<Rightarrow> handler list option \<Rightarrow> string option \<Rightarrow> state \<Rightarrow> state" where
  "basicConfig level handlers format s =
     (if root_handlers s = [] then
        (let hs = (case handlers of None \<Rightarrow> [console_handler] | Some hs \<Rightarrow> hs);
             fs = (case format of None \<Rightarrow> BASIC_FORMAT | Some f \<Rightarrow> f);
             hs' = map (\<lambda>h. if formatter h = None then h\<lparr>formatter := Some fs\<rparr> else h) hs;
             s1 = s\<lparr>root_handlers := foldl addHandler (root_handlers s) hs'\<rparr>
         in (case level of None \<Rightarrow> s1 | Some l \<Rightarrow> s1\<lparr>root_level := l\<rparr>))
      else s)"

text \<open>
  \<^verbatim>\<open>logging.log(level, msg, *args, **kwargs)\<close>. The root logger has a handler when
  \<^verbatim>\<open>root.log\<close> runs, so the library's handler of last resort plays no part.
\<close>

definition log :: "int \<Rightarrow> string \<Rightarrow> pyval list \<Rightarrow> kwargs \<Rightarrow> state \<Rightarrow> (unit, state) result" where
  "log level m a kw s =
     Logger_log level m a kw (if root_handlers s = [] then basicConfig None None None s else s)"

text \<open>A process that has not touched the logging library: no handler, level \<open>WARNING\<close>.\<close>

definition startup :: "env \<Rightarrow> state" where
  "startup w = \<lparr>root_level = WARNING, root_handlers = [], env = w\<rparr>"

section \<open>The module: initialisation and exception logging\<close>

text \<open>
  The constructor call \<^verbatim>\<open>_LoggingErrorHandler(log_file, maxBytes=..., encoding=...)\<close>:
  \<^verbatim>\<open>RotatingFileHandler.__init__\<close> with the defaults \<^verbatim>\<open>mode='a'\<close>,
  \<^verbatim>\<open>backupCount=0\<close> and \<^verbatim>\<open>delay=False\<close>, so the file is opened at once.
\<close>

definition new_LoggingErrorHandler :: "string \<Rightarrow> nat \<Rightarrow> string \<Rightarrow> env \<Rightarrow> hstate" where
  "new_LoggingErrorHandler filename max_bytes enc w =
     FileHandler_open
       (\<lparr>hclass = LoggingErrorHandler, baseFilename = filename, mode = ''a'',
         encoding = Some enc, maxBytes = max_bytes, backupCount = 0, delay = False,
         hlevel = NOTSET, formatter = None, stream = None\<rparr>, w)"

text \<open>\<^verbatim>\<open>init_logging(log_file, level=logging.DEBUG)\<close>; \<open>None\<close> is the omitted argument.\<close>

definition init_logging :: "string \<Rightarrow> int option \<Rightarrow> state \<Rightarrow> state" where
  "init_logging log_file level s =
     (let hw = new_LoggingErrorHandler log_file LOG_MAX_SIZE ''utf-8'' (env s)
      in basicConfig (Some (case level of None \<Rightarrow> DEBUG | Some l \<Rightarrow> l)) (Some [fst hw])
           (Some ''%(asctime)s [%(levelname)s] (%(threadName)s) %(message)s'')
           (s\<lparr>env := snd hw\<rparr>))"

text \<open>The loop \<^verbatim>\<open>for line in ...: logging.log(level, line)\<close>.\<close>

fun log_lines :: "int \<Rightarrow> string list \<Rightarrow> state \<Rightarrow> (unit, state) result" where
  "log_lines level [] s = Return () s"
| "log_lines level (line # rest) s =
     (case log level line [] no_kwargs s of
        Raise e s' \<Rightarrow> Raise e s'
      | Return u s' \<Rightarrow> log_lines level rest s')"

text \<open>
  \<^verbatim>\<open>log_exception(msg, *args, level=logging.CRITICAL, **kwargs)\<close>; \<open>None\<close> is the
  omitted level.
\<close>

definition log_exception :: "string \<Rightarrow> pyval list \<Rightarrow> int option \<Rightarrow> kwargs \<Rightarrow> state \<Rightarrow> (unit, state) result" where
  "log_exception m a level kw s =
     (let lvl = (case level of None \<Rightarrow> CRITICAL | Some l \<Rightarrow> l) in
      and_then (log lvl m a kw s) (\<lambda>u s1.
      log_lines lvl (str_split nl (format_exc (sys_exc_info (env s1)))) s1))"

section \<open>A concrete environment\<close>

text \<open>
  The \<^verbatim>\<open>%\<close> operator on the conversions \<^verbatim>\<open>%s\<close>, \<^verbatim>\<open>%d\<close> and \<^verbatim>\<open>%%\<close>,
  with the interpreter's errors: an argument is fetched before the conversion character is
  looked at, and left-over arguments are an error at the end. It instantiates \<open>str_mod\<close>
  where a concrete environment is needed, on format strings that use these conversions only.
\<close>

fun str_val :: "pyval \<Rightarrow> string" where
  "str_val (PStr s) = s"
| "str_val (PInt i) = str_int i"

fun pct_format :: "string \<Rightarrow> pyval list \<Rightarrow> pyexc + string" where
  "pct_format [] [] = Inr []"
| "pct_format [] (a # as) =
     Inl (PyExc ''TypeError'' ''not all arguments converted during string formatting'' [])"
| "pct_format [c] as =
     (if c = CHR ''%'' then Inl (PyExc ''ValueError'' ''incomplete format'' [])
      else prepend [c] (pct_format [] as))"
| "pct_format (c # c' # cs) as =
     (if c \<noteq> CHR ''%'' then prepend [c] (pct_format (c' # cs) as)
      else if c' = CHR ''%'' then prepend ''%'' (pct_format cs as)
      else (case as of
              [] \<Rightarrow> Inl (PyExc ''TypeError'' ''not enough arguments for format string'' [])
            | a # as' \<Rightarrow>
                if c' = CHR ''s'' then prepend (str_val a) (pct_format cs as')
                else if c' = CHR ''d'' then
                  (case a of
                     PInt i \<Rightarrow> prepend (str_int i) (pct_format cs as')
                   | PStr s \<Rightarrow> Inl (PyExc ''TypeError'' ''%d format: a real number is required, not str'' []))
                else Inl (PyExc ''ValueError'' ''unsupported format character'' [])))"

definition env0 :: env where
  "env0 = \<lparr>files = Map.empty, io_fault = None, sys_exc_info = None,
            asctime = ''2015-06-01 12:00:00,000'', threadName = ''MainThread'',
            str_mod = pct_format\<rparr>"

text \<open>
  Concrete inputs: an application error being handled, the error of a full disk, a record,
  an environment whose streams raise on every write, a process right after
  \<^verbatim>\<open>init_logging("x.log")\<close>, the same while the application error is being handled,
  and an environment whose log file has already reached the size cap.
\<close>

definition value_error :: pyexc where
  "value_error =
     PyExc ''ValueError'' ''bad 100%'' [''  File app.py, line 3, in run\<newline>    step()\<newline>'']"

definition disk_full :: pyexc where
  "disk_full =
     PyExc ''OSError'' ''[Errno 28] No space left on device''
       [''  File logging/__init__.py, line 1113, in emit\<newline>    stream.write(msg + self.terminator)\<newline>'']"

definition record0 :: LogRecord where
  "record0 = makeRecord (startup env0) CRITICAL ''started'' [] no_kwargs"

definition broken_env :: env where
  "broken_env =
     env0\<lparr>files := [Base ''x.log'' \<mapsto> []], io_fault := Some disk_full,
          sys_exc_info := Some disk_full\<rparr>"

definition state0 :: state where
  "state0 = init_logging ''x.log'' None (startup env0)"

definition state_handling :: state where
  "state_handling = init_logging ''x.log'' None (startup (env0\<lparr>sys_exc_info := Some value_error\<rparr>))"

definition full_env :: env where
  "full_env = env0\<lparr>files := [Base ''x.log'' \<mapsto> [Write (replicate LOG_MAX_SIZE CHR ''x'')]]\<rparr>"

section \<open>Notions used to state the properties\<close>

text \<open>
  The line format of the specification,
  \<^verbatim>\<open><timestamp> [<LEVEL>] (<thread-name>) <message>\<close>.
\<close>

definition spec_line :: "string \<Rightarrow> string \<Rightarrow> string \<Rightarrow> string \<Rightarrow> string" where
  "spec_line ts lev th m = ts @ '' ['' @ lev @ ''] ('' @ th @ '') '' @ m"

text \<open>The lines of a text: the pieces between newline characters, the last one terminated.\<close>

definition file_lines :: "string \<Rightarrow> string list" where
  "file_lines content = butlast (str_split nl content)"

text \<open>
  The handler that \<open>init_logging\<close> builds for a path, and the states in which it is the one
  installed handler, its file exists and streams work.
\<close>

definition sink_handler :: "string \<Rightarrow> handler" where
  "sink_handler f =
     \<lparr>hclass = LoggingErrorHandler, baseFilename = f, mode = ''a'', encoding = Some ''utf-8'',
      maxBytes = LOG_MAX_SIZE, backupCount = 0, delay = False, hlevel = NOTSET,
      formatter = Some ''%(asctime)s [%(levelname)s] (%(threadName)s) %(message)s'',
      stream = Some (Base f)\<rparr>"

definition sink_ready :: "string \<Rightarrow> state \<Rightarrow> bool" where
  "sink_ready f s =
     (root_handlers s = [sink_handler f] \<and> io_fault (env s) = None \<and> file_exists (env s) (Base f))"

definition append_events :: "fname \<Rightarrow> io_event list \<Rightarrow> env \<Rightarrow> env" where
  "append_events f evs w = w\<lparr>files := (files w)(f \<mapsto> file_events w f @ evs)\<rparr>"

definition logged :: "string \<Rightarrow> io_event list \<Rightarrow> state \<Rightarrow> state" where
  "logged f evs s = s\<lparr>env := append_events (Base f) evs (env s)\<rparr>"

text \<open>
  What one record leaves in the file: the line (with the exception text when the call asked
  for it), its terminator, and a flush.
\<close>

definition record_text :: "state \<Rightarrow> int \<Rightarrow> string \<Rightarrow> kwargs \<Rightarrow> string" where
  "record_text s level text kw =
     add_exc_text (spec_line (asctime (env s)) (getLevelName level) (threadName (env s)) text)
       (if kw_exc_info kw then Some (sys_exc_info (env s)) else None)"

definition record_events :: "state \<Rightarrow> int \<Rightarrow> string \<Rightarrow> kwargs \<Rightarrow> io_event list" where
  "record_events s level text kw = [Write (record_text s level text kw @ ''\<newline>''), Flush]"

text \<open>What \<open>handleError\<close> leaves in the stream for a traceback text.\<close>

definition diagnostic_events :: "string \<Rightarrow> io_event list" where
  "diagnostic_events tb =
     Write ''Exception in logging module:\<newline>''
       # map (\<lambda>line. Write (line @ ''\<newline>'')) (str_split nl tb) @ [Flush]"

text \<open>
  A handler apart from its stream, which is what identifies the sink; and the states whose
  only handler is the module's handler bound to a path.
\<close>

definition sink_id :: "handler \<Rightarrow> handler" where
  "sink_id h = h\<lparr>stream := None\<rparr>"

definition sole_sink :: "string \<Rightarrow> state \<Rightarrow> bool" where
  "sole_sink f s = (map sink_id (root_handlers s) = [sink_id (sink_handler f)])"

section \<open>Streams, the error handler and the split of a traceback\<close>

lemma and_then_Return [simp]: "and_then (Return x s) k = k x s"
  by (simp add: and_then_def)

lemma and_then_Raise [simp]: "and_then (Raise e s) k = Raise e s"
  by (simp add: and_then_def)

lemma file_events_append [simp]:
  "file_events (append_events f evs w) g = (if g = f then file_events w f @ evs else file_events w g)"
  by (simp add: append_events_def file_events_def)

lemma append_events_fields [simp]:
  "io_fault (append_events f evs w) = io_fault w"
  "sys_exc_info (append_events f evs w) = sys_exc_info w"
  "asctime (append_events f evs w) = asctime w"
  "threadName (append_events f evs w) = threadName w"
  "str_mod (append_events f evs w) = str_mod w"
  by (simp_all add: append_events_def)

lemma append_events_twice [simp]:
  "append_events f evs2 (append_events f evs1 w) = append_events f (evs1 @ evs2) w"
  by (simp add: append_events_def file_events_def)

lemma append_events_exists [simp]:
  "file_exists (append_events f evs w) g = (g = f \<or> file_exists w g)"
  by (simp add: append_events_def file_exists_def)

lemma stream_write_ok:
  "io_fault w = None \<Longrightarrow> stream_write f d w = Return () (append_events f [Write d] w)"
  by (simp add: stream_write_def append_events_def)

lemma stream_flush_ok:
  "io_fault w = None \<Longrightarrow> stream_flush f w = Return () (append_events f [Flush] w)"
  by (simp add: stream_flush_def append_events_def)

lemma append_events_Nil:
  "file_exists w f \<Longrightarrow> append_events f [] w = w"
  by (auto simp: append_events_def file_events_def file_exists_def fun_upd_idem)

lemma write_lines_ok:
  "stream h = Some f \<Longrightarrow> io_fault w = None \<Longrightarrow> file_exists w f \<Longrightarrow>
   write_lines h ls w = Return () (append_events f (map (\<lambda>line. Write (line @ ''\<newline>'')) ls) w)"
proof (induction ls arbitrary: w)
  case Nil
  then show ?case by (simp add: append_events_Nil)
next
  case (Cons l ls)
  then show ?case by (simp add: Handler_stream_write_def stream_write_ok)
qed

lemma handleError_ok:
  assumes "stream h = Some f" and "io_fault w = None"
  shows "handleError h r w = bare_raise (append_events f (diagnostic_events (format_exc (sys_exc_info w))) w)"
  using assms
  by (simp add: handleError_def Handler_stream_write_def stream_write_ok write_lines_ok
      Handler_flush_def stream_flush_ok diagnostic_events_def)

lemma handleError_fault:
  assumes "stream h = Some f" and "io_fault w = Some e"
  shows "handleError h r w = Raise e w"
  using assms
  by (simp add: handleError_def Handler_stream_write_def stream_write_def)

lemma str_split_not_Nil [simp]: "str_split c s \<noteq> []"
  by (induction s) (auto split: list.splits)

lemma split_snoc_nl: "str_split c (s @ [c]) = str_split c s @ [[]]"
  by (induction s) (auto split: list.splits)

lemma format_exc_ends: "\<exists>t. format_exc ei = t @ [nl]"
  by (cases ei) (auto simp: format_exc_def nl_def)

lemma last_split_format_exc: "last (str_split nl (format_exc ei)) = []"
  using format_exc_ends[of ei] by (auto simp: split_snoc_nl)


lemma format_string_renders:
  "fmt_mapping Lit ''%(asctime)s [%(levelname)s] (%(threadName)s) %(message)s'' (record_dict r m)
   = Inr (spec_line (rec_asctime r) (getLevelName (levelno r)) (rec_threadName r) m)"
  by (simp add: record_dict_def spec_line_def)

lemma sink_handler_fields [simp]:
  "hclass (sink_handler f) = LoggingErrorHandler"
  "baseFilename (sink_handler f) = f"
  "maxBytes (sink_handler f) = LOG_MAX_SIZE"
  "backupCount (sink_handler f) = 0"
  "delay (sink_handler f) = False"
  "hlevel (sink_handler f) = NOTSET"
  "stream (sink_handler f) = Some (Base f)"
  "formatter (sink_handler f) = Some ''%(asctime)s [%(levelname)s] (%(threadName)s) %(message)s''"
  by (simp_all add: sink_handler_def)

lemma shouldRollover_open:
  assumes "stream h = Some g" and "0 < maxBytes h"
  shows "shouldRollover r (h, w) =
    (case Handler_format h r w of
       Inl e \<Rightarrow> Raise e (h, w)
     | Inr text \<Rightarrow> Return (maxBytes h \<le> length (file_content w (Base (baseFilename h))) + length (text @ ''\<newline>'')) (h, w))"
  using assms by (simp add: shouldRollover_def Let_def split: sum.split)

lemma open_append_exists: "file_exists w f \<Longrightarrow> open_append f w = w"
  by (simp add: open_append_def)

lemma doRollover_sink:
  "file_exists w (Base f) \<Longrightarrow> doRollover (sink_handler f, w) = (sink_handler f, w)"
  by (simp add: doRollover_def FileHandler_open_def open_append_exists Let_def sink_handler_def)

lemma StreamHandler_emit_ok:
  assumes "Handler_format h r w = Inr text" and "stream h = Some g" and "io_fault w = None"
  shows "StreamHandler_emit r (h, w) = Return () (h, append_events g [Write (text @ ''\<newline>''), Flush] w)"
  using assms
  by (simp add: StreamHandler_emit_def try_except_def on_env_def Handler_stream_write_def
      stream_write_ok Handler_flush_def stream_flush_ok)

lemma restore_exc_info [simp]:
  "(append_events f evs (w\<lparr>sys_exc_info := x\<rparr>))\<lparr>sys_exc_info := sys_exc_info w\<rparr> = append_events f evs w"
  by (simp add: append_events_def file_events_def)

lemma emit_sink_ok:
  assumes "Handler_format (sink_handler f) r w = Inr text" and "io_fault w = None"
    and "file_exists w (Base f)"
  shows "BaseRotatingHandler_emit r (sink_handler f, w)
         = Return () (sink_handler f, append_events (Base f) [Write (text @ ''\<newline>''), Flush] w)"
  using assms
  by (simp add: BaseRotatingHandler_emit_def try_except_def shouldRollover_open LOG_MAX_SIZE_def
      doRollover_sink FileHandler_emit_def StreamHandler_emit_ok)

lemma emit_sink_format_error:
  assumes "Handler_format (sink_handler f) r w = Inl e" and "io_fault w = None"
  shows "BaseRotatingHandler_emit r (sink_handler f, w)
         = Raise e (sink_handler f, append_events (Base f) (diagnostic_events (format_exc (Some e))) w)"
  using assms
  by (simp add: BaseRotatingHandler_emit_def try_except_def shouldRollover_open LOG_MAX_SIZE_def
      Handler_handleError_def on_env_def set_exc_info_def handleError_ok bare_raise_def)


lemma makeRecord_fields [simp]:
  "levelno (makeRecord s lvl m a kw) = lvl"
  "rec_asctime (makeRecord s lvl m a kw) = asctime (env s)"
  "rec_threadName (makeRecord s lvl m a kw) = threadName (env s)"
  "rec_exc_info (makeRecord s lvl m a kw) = (if kw_exc_info kw then Some (sys_exc_info (env s)) else None)"
  "args (makeRecord s lvl m a kw) = a"
  "msg (makeRecord s lvl m a kw) = m"
  by (simp_all add: makeRecord_def)

lemma format_sink_record:
  "Handler_format (sink_handler f) r w =
     (case getMessage w r of
        Inl e \<Rightarrow> Inl e
      | Inr t \<Rightarrow> Inr (add_exc_text (spec_line (rec_asctime r) (getLevelName (levelno r)) (rec_threadName r) t)
                         (rec_exc_info r)))"
proof (cases "getMessage w r")
  case (Inl e)
  then show ?thesis by (simp add: Handler_format_def Formatter_format_def)
next
  case (Inr t)
  then show ?thesis
    unfolding Handler_format_def Formatter_format_def
    by (simp only: sink_handler_fields option.case sum.case format_string_renders)
qed

lemma format_sink:
  "Handler_format (sink_handler f) (makeRecord s lvl m a kw) (env s) =
     (case getMessage (env s) (makeRecord s lvl m a kw) of
        Inl e \<Rightarrow> Inl e
      | Inr t \<Rightarrow> Inr (record_text s lvl t kw))"
  by (simp add: format_sink_record record_text_def split: sum.split)

lemma record_text_plain [simp]:
  "record_text s lvl text no_kwargs
   = spec_line (asctime (env s)) (getLevelName lvl) (threadName (env s)) text"
  by (simp add: record_text_def no_kwargs_def add_exc_text_def)

lemma getMessage_no_args [simp]:
  "getMessage w (makeRecord s lvl m [] kw) = Inr m"
  by (simp add: getMessage_def)

lemma callHandlers_single:
  "callHandlers r [h] w =
     (case (if hlevel h \<le> levelno r then Handler_emit r (h, w) else Return () (h, w)) of
        Raise e hw \<Rightarrow> Raise e ([fst hw], snd hw)
      | Return u hw \<Rightarrow> Return () ([fst hw], snd hw))"
  by (simp split: result.split)

lemma keep_handlers:
  "root_handlers s = hs \<Longrightarrow> s\<lparr>root_handlers := hs, env := w\<rparr> = s\<lparr>env := w\<rparr>"
  by (cases s) simp

lemma log_sink:
  assumes "sink_ready f s"
  shows "log lvl m a kw s =
     (if isEnabledFor s lvl then
        (case getMessage (env s) (makeRecord s lvl m a kw) of
           Inl e \<Rightarrow> Raise e (logged f (diagnostic_events (format_exc (Some e))) s)
         | Inr text \<Rightarrow> Return () (logged f (record_events s lvl text kw) s))
      else Return () s)"
proof (cases "isEnabledFor s lvl")
  case False
  with assms show ?thesis by (simp add: log_def Logger_log_def sink_ready_def)
next
  case True
  then have lv: "hlevel (sink_handler f) \<le> levelno (makeRecord s lvl m a kw)"
    by (simp add: isEnabledFor_def NOTSET_def split: if_splits)
  from assms have hs: "root_handlers s = [sink_handler f]" and io: "io_fault (env s) = None"
    and ex: "file_exists (env s) (Base f)"
    by (simp_all add: sink_ready_def)
  show ?thesis
  proof (cases "getMessage (env s) (makeRecord s lvl m a kw)")
    case (Inl e)
    then have "Handler_format (sink_handler f) (makeRecord s lvl m a kw) (env s) = Inl e"
      by (simp add: format_sink)
    from emit_sink_format_error[OF this io] True Inl hs lv show ?thesis
      by (simp add: log_def Logger_log_def callHandlers_single Handler_emit_def logged_def keep_handlers)
  next
    case (Inr t)
    then have "Handler_format (sink_handler f) (makeRecord s lvl m a kw) (env s) = Inr (record_text s lvl t kw)"
      by (simp add: format_sink)
    from emit_sink_ok[OF this io ex] True Inr hs lv show ?thesis
      by (simp add: log_def Logger_log_def callHandlers_single Handler_emit_def logged_def
          keep_handlers record_events_def)
  qed
qed


lemma logged_fields [simp]:
  "root_level (logged f evs s) = root_level s"
  "root_handlers (logged f evs s) = root_handlers s"
  "io_fault (env (logged f evs s)) = io_fault (env s)"
  "sys_exc_info (env (logged f evs s)) = sys_exc_info (env s)"
  "asctime (env (logged f evs s)) = asctime (env s)"
  "threadName (env (logged f evs s)) = threadName (env s)"
  "str_mod (env (logged f evs s)) = str_mod (env s)"
  by (simp_all add: logged_def)

lemma logged_twice [simp]: "logged f evs2 (logged f evs1 s) = logged f (evs1 @ evs2) s"
  by (simp add: logged_def)

lemma logged_Nil: "file_exists (env s) (Base f) \<Longrightarrow> logged f [] s = s"
  by (simp add: logged_def append_events_Nil)

lemma logged_events [simp]:
  "file_events (env (logged f evs s)) g
   = (if g = Base f then file_events (env s) (Base f) @ evs else file_events (env s) g)"
  by (simp add: logged_def)

lemma sink_ready_logged [simp]: "sink_ready f s \<Longrightarrow> sink_ready f (logged f evs s)"
  by (simp add: sink_ready_def logged_def)

lemma isEnabledFor_logged [simp]: "isEnabledFor (logged f evs s) lvl = isEnabledFor s lvl"
  by (simp add: isEnabledFor_def)

lemma record_events_logged [simp]: "record_events (logged f evs s) lvl t kw = record_events s lvl t kw"
  by (simp add: record_events_def record_text_def)

lemma log_lines_sink:
  assumes "sink_ready f s"
  shows "log_lines lvl ls s =
     Return () (if isEnabledFor s lvl
                then logged f (concat (map (\<lambda>l. record_events s lvl l no_kwargs) ls)) s else s)"
  using assms
proof (induction ls arbitrary: s)
  case Nil
  then show ?case by (simp add: logged_Nil sink_ready_def)
next
  case (Cons l ls)
  show ?case
  proof (cases "isEnabledFor s lvl")
    case True
    with Cons.prems Cons.IH[of "logged f (record_events s lvl l no_kwargs) s"] show ?thesis
      by (simp add: log_sink[OF Cons.prems])
  next
    case False
    with Cons.prems Cons.IH[of s] show ?thesis
      by (simp add: log_sink[OF Cons.prems])
  qed
qed

lemma log_exception_sink:
  assumes "sink_ready f s" and "isEnabledFor s lvl"
    and "getMessage (env s) (makeRecord s lvl m a kw) = Inr t"
  shows "log_exception m a (Some lvl) kw s =
     Return () (logged f (record_events s lvl t kw
                  @ concat (map (\<lambda>l. record_events s lvl l no_kwargs)
                              (str_split nl (format_exc (sys_exc_info (env s)))))) s)"
proof -
  have "sink_ready f (logged f (record_events s lvl t kw) s)"
    using assms(1) by simp
  from log_lines_sink[OF this] assms show ?thesis
    by (simp add: log_exception_def log_sink)
qed

section \<open>Initialisation at startup\<close>

lemma init_env:
  "env (init_logging f lvl (startup w)) = open_append (Base f) w"
  by (simp add: init_logging_def new_LoggingErrorHandler_def FileHandler_open_def basicConfig_def
      startup_def Let_def split: option.split)

lemma init_handlers:
  "root_handlers (init_logging f lvl (startup w)) = [sink_handler f]"
  by (simp add: init_logging_def new_LoggingErrorHandler_def FileHandler_open_def basicConfig_def
      startup_def Let_def addHandler_def sink_handler_def NOTSET_def split: option.split)

lemma init_level:
  "root_level (init_logging f lvl (startup w)) = (case lvl of None \<Rightarrow> DEBUG | Some l \<Rightarrow> l)"
  by (simp add: init_logging_def new_LoggingErrorHandler_def FileHandler_open_def basicConfig_def
      startup_def Let_def split: option.split)

lemma open_append_fields [simp]:
  "io_fault (open_append g w) = io_fault w"
  "sys_exc_info (open_append g w) = sys_exc_info w"
  "asctime (open_append g w) = asctime w"
  "threadName (open_append g w) = threadName w"
  "str_mod (open_append g w) = str_mod w"
  "file_exists (open_append g w) g"
  "file_events (open_append g w) g' = file_events w g'"
  by (auto simp: open_append_def file_exists_def file_events_def)

lemma init_ready:
  "io_fault w = None \<Longrightarrow> sink_ready f (init_logging f lvl (startup w))"
  by (simp add: sink_ready_def init_env init_handlers)

lemma init_noop:
  "root_handlers s \<noteq> [] \<Longrightarrow> init_logging f lvl s = s\<lparr>env := open_append (Base f) (env s)\<rparr>"
  by (simp add: init_logging_def new_LoggingErrorHandler_def FileHandler_open_def basicConfig_def Let_def)


section \<open>Logging operations keep the installed handlers\<close>

lemma on_env_fst [simp]: "fst (final_state (on_env body hw)) = fst hw"
  by (simp add: on_env_def split: result.split)

lemma handleError_fst [simp]: "fst (final_state (Handler_handleError r hw)) = fst hw"
  by (simp add: Handler_handleError_def split: handler_class.split)

lemma try_except_sink_id:
  assumes "\<And>hw. sink_id (fst (final_state (body hw))) = sink_id (fst hw)"
    and "\<And>hw. sink_id (fst (final_state (handler hw))) = sink_id (fst hw)"
  shows "sink_id (fst (final_state (try_except body handler hw))) = sink_id (fst hw)"
proof (cases "body hw")
  case (Return u hw1)
  with assms(1)[of hw] show ?thesis by (simp add: try_except_def)
next
  case (Raise e hw1)
  with assms(1)[of hw] assms(2)[of "set_exc_info (Some e) hw1"] show ?thesis
    by (cases "handler (set_exc_info (Some e) hw1)") (simp_all add: try_except_def set_exc_info_def)
qed

lemma StreamHandler_emit_sink_id:
  "sink_id (fst (final_state (StreamHandler_emit r hw))) = sink_id (fst hw)"
  unfolding StreamHandler_emit_def
proof (rule try_except_sink_id)
  fix hw
  show "sink_id (fst (final_state (case Handler_format (fst hw) r (snd hw) of
            Inl e \<Rightarrow> Raise e hw
          | Inr t \<Rightarrow>
              and_then (on_env (Handler_stream_write (fst hw) (t @ ''\<newline>'')) hw) (\<lambda>u hw1.
              on_env (Handler_flush (fst hw1)) hw1)))) = sink_id (fst hw)"
  proof (cases "Handler_format (fst hw) r (snd hw)")
    case (Inl e)
    then show ?thesis by simp
  next
    case (Inr t)
    with on_env_fst[of "Handler_stream_write (fst hw) (t @ ''\<newline>'')" hw] show ?thesis
      by (cases "on_env (Handler_stream_write (fst hw) (t @ ''\<newline>'')) hw") simp_all
  qed
qed simp

lemma FileHandler_open_sink_id [simp]: "sink_id (fst (FileHandler_open hw)) = sink_id (fst hw)"
  by (simp add: FileHandler_open_def sink_id_def)

lemma FileHandler_emit_sink_id:
  "sink_id (fst (final_state (FileHandler_emit r hw))) = sink_id (fst hw)"
  by (simp add: FileHandler_emit_def StreamHandler_emit_sink_id)

lemma shouldRollover_sink_id:
  "sink_id (fst (final_state (shouldRollover r hw))) = sink_id (fst hw)"
  by (simp add: shouldRollover_def Let_def split: sum.split)

lemma doRollover_sink_id [simp]: "sink_id (fst (doRollover hw)) = sink_id (fst hw)"
  by (simp add: doRollover_def Let_def sink_id_def FileHandler_open_def)

lemma BaseRotatingHandler_emit_sink_id:
  "sink_id (fst (final_state (BaseRotatingHandler_emit r hw))) = sink_id (fst hw)"
  unfolding BaseRotatingHandler_emit_def
proof (rule try_except_sink_id)
  fix hw
  show "sink_id (fst (final_state (and_then (shouldRollover r hw)
          (\<lambda>roll hw1. FileHandler_emit r (if roll then doRollover hw1 else hw1))))) = sink_id (fst hw)"
    using shouldRollover_sink_id[of r hw]
    by (cases "shouldRollover r hw") (simp_all add: FileHandler_emit_sink_id)
qed simp

lemma Handler_emit_sink_id:
  "sink_id (fst (final_state (Handler_emit r hw))) = sink_id (fst hw)"
  by (simp add: Handler_emit_def BaseRotatingHandler_emit_sink_id StreamHandler_emit_sink_id
      split: handler_class.split)

lemma callHandlers_sink_id:
  "map sink_id (fst (final_state (callHandlers r hs w))) = map sink_id hs"
proof (induction hs arbitrary: w)
  case Nil
  show ?case by simp
next
  case (Cons h hs)
  show ?case
  proof (cases "hlevel h \<le> levelno r")
    case True
    show ?thesis
    proof (cases "Handler_emit r (h, w)")
      case (Return u hw)
      with True Handler_emit_sink_id[of r "(h, w)"] Cons.IH[of "snd hw"] show ?thesis
        by (cases "callHandlers r hs (snd hw)") simp_all
    next
      case (Raise e hw)
      with True Handler_emit_sink_id[of r "(h, w)"] show ?thesis by simp
    qed
  next
    case False
    with Cons.IH[of w] show ?thesis by (cases "callHandlers r hs w") simp_all
  qed
qed

lemma Logger_log_sinks:
  "map sink_id (root_handlers (final_state (Logger_log lvl m a kw s))) = map sink_id (root_handlers s)"
  using callHandlers_sink_id[of "makeRecord s lvl m a kw" "root_handlers s" "env s"]
  by (cases "callHandlers (makeRecord s lvl m a kw) (root_handlers s) (env s)")
     (simp_all add: Logger_log_def)

lemma log_sinks:
  "root_handlers s \<noteq> [] \<Longrightarrow>
   map sink_id (root_handlers (final_state (log lvl m a kw s))) = map sink_id (root_handlers s)"
  by (simp add: log_def Logger_log_sinks)

lemma sole_sink_nonempty: "sole_sink f s \<Longrightarrow> root_handlers s \<noteq> []"
  by (auto simp: sole_sink_def)

lemma log_sole_sink:
  "sole_sink f s \<Longrightarrow> sole_sink f (final_state (log lvl m a kw s))"
  using log_sinks[of s lvl m a kw] by (auto simp: sole_sink_def)

lemma log_lines_sole_sink:
  "sole_sink f s \<Longrightarrow> sole_sink f (final_state (log_lines lvl ls s))"
proof (induction ls arbitrary: s)
  case Nil
  then show ?case by simp
next
  case (Cons l ls)
  from log_sole_sink[OF Cons.prems, of lvl l "[]" no_kwargs] Cons.IH show ?case
    by (cases "log lvl l [] no_kwargs s") simp_all
qed

lemma log_exception_sole_sink:
  "sole_sink f s \<Longrightarrow> sole_sink f (final_state (log_exception m a lvl kw s))"
  using log_sole_sink[of f s "case lvl of None \<Rightarrow> CRITICAL | Some l \<Rightarrow> l" m a kw]
  by (cases "log (case lvl of None \<Rightarrow> CRITICAL | Some l \<Rightarrow> l) m a kw s")
     (simp_all add: log_exception_def log_lines_sole_sink)

section \<open>The concrete environment\<close>

lemma env0_fields [simp]:
  "io_fault env0 = None" "sys_exc_info env0 = None" "file_events env0 g = []"
  "asctime env0 = ''2015-06-01 12:00:00,000''" "threadName env0 = ''MainThread''"
  "str_mod env0 = pct_format" "\<not> file_exists env0 g"
  by (simp_all add: env0_def file_events_def file_exists_def)

lemma file_events_updates [simp]:
  "file_events (w\<lparr>sys_exc_info := x\<rparr>) = file_events w"
  "file_events (w\<lparr>io_fault := y\<rparr>) = file_events w"
  by (simp_all add: file_events_def fun_eq_iff)

lemma file_exists_updates [simp]:
  "file_exists (w\<lparr>sys_exc_info := x\<rparr>) = file_exists w"
  "file_exists (w\<lparr>io_fault := y\<rparr>) = file_exists w"
  by (simp_all add: file_exists_def fun_eq_iff)

section \<open>The error handler\<close>

text \<open>
  Claim C1, as stated, at a stream that raises on every write (the record's own write failed
  with the error of a full disk, which is being handled): the header is never written, nothing
  is flushed, and the error that leaves the handler comes from its own first write.
\<close>

theorem handleError_on_failing_stream:
  "raised (handleError (sink_handler ''x.log'') record0 broken_env) = Some disk_full
   \<and> file_events (final_state (handleError (sink_handler ''x.log'') record0 broken_env)) (Base ''x.log'') = []"
  by (simp add: handleError_fault[of _ "Base ''x.log''" _ disk_full] broken_env_def file_events_def)

text \<open>
  Claim C1, amended. While an exception \<open>e\<close> is being handled and the handler has a
  stream: if the stream accepts writes and flushes, \<open>handleError\<close> writes the header
  \<^verbatim>\<open>Exception in logging module:\<close>, then each piece of the traceback text of \<open>e\<close>
  split at newlines, in order and each followed by a newline, then flushes, then raises
  \<open>e\<close>; if the stream raises on a write, that error is raised at the first write and
  nothing is written.
\<close>

theorem handleError_diagnoses_then_reraises:
  assumes "stream h = Some f" and "sys_exc_info w = Some e"
  shows "(io_fault w = None \<longrightarrow>
            handleError h r w =
              Raise e (append_events f
                (Write ''Exception in logging module:\<newline>''
                   # map (\<lambda>line. Write (line @ ''\<newline>'')) (str_split nl (format_exc (Some e)))
                   @ [Flush]) w))
         \<and> (\<forall>e'. io_fault w = Some e' \<longrightarrow> handleError h r w = Raise e' w)"
  using assms by (simp add: handleError_ok handleError_fault bare_raise_def diagnostic_events_def)

theorem handleError_diagnoses_then_reraises_witness:
  "stream (sink_handler ''x.log'') = Some (Base ''x.log'')
   \<and> sys_exc_info (env0\<lparr>sys_exc_info := Some value_error\<rparr>) = Some value_error
   \<and> io_fault (env0\<lparr>sys_exc_info := Some value_error\<rparr>) = None
   \<and> raised (handleError (sink_handler ''x.log'') record0 (env0\<lparr>sys_exc_info := Some value_error\<rparr>))
       = Some value_error
   \<and> file_events (final_state (handleError (sink_handler ''x.log'') record0 (env0\<lparr>sys_exc_info := Some value_error\<rparr>)))
        (Base ''x.log'')
       = [Write ''Exception in logging module:\<newline>'',
          Write ''Traceback (most recent call last):\<newline>'',
          Write ''  File app.py, line 3, in run\<newline>'',
          Write ''    step()\<newline>'',
          Write ''ValueError: bad 100%\<newline>'',
          Write ''\<newline>'',
          Flush]"
  using handleError_diagnoses_then_reraises
          [of "sink_handler ''x.log''" "Base ''x.log''" "env0\<lparr>sys_exc_info := Some value_error\<rparr>"
              value_error record0]
  by (simp add: value_error_def format_exc_def nl_def)

section \<open>Facts about the concrete inputs\<close>

lemma state0_facts [simp]:
  "sink_ready ''x.log'' state0"
  "root_level state0 = DEBUG"
  "env state0 = open_append (Base ''x.log'') env0"
  by (simp_all add: state0_def init_ready init_level init_env)

lemma state_handling_facts [simp]:
  "sink_ready ''x.log'' state_handling"
  "root_level state_handling = DEBUG"
  "env state_handling = open_append (Base ''x.log'') (env0\<lparr>sys_exc_info := Some value_error\<rparr>)"
  by (simp_all add: state_handling_def init_ready init_level init_env)

lemmas level_defs = CRITICAL_def ERROR_def WARNING_def INFO_def DEBUG_def NOTSET_def

lemmas eval_defs = record_events_def spec_line_def getLevelName_def level_defs isEnabledFor_def
  format_exc_def nl_def value_error_def

section \<open>The bare raise of the error handler\<close>

text \<open>
  Claim C9. With a working stream, \<open>handleError\<close> called while no exception is being
  handled writes its diagnostic (for the traceback text \<^verbatim>\<open>NoneType: None\<close>) and then
  fails in its bare \<^verbatim>\<open>raise\<close> with the runtime error
  \<^verbatim>\<open>No active exception to reraise\<close>; it re-raises an error \<open>e\<close> only when
  \<open>e\<close> is the exception being handled.
\<close>

theorem handleError_without_active_exception:
  assumes "stream h = Some f" and "io_fault w = None"
  shows "(sys_exc_info w = None \<longrightarrow>
            handleError h r w =
              Raise (PyExc ''RuntimeError'' ''No active exception to reraise'' [])
                (append_events f (diagnostic_events ''NoneType: None\<newline>'') w))
         \<and> (\<forall>e. sys_exc_info w = Some e \<longrightarrow> raised (handleError h r w) = Some e)"
  using assms by (simp add: handleError_ok bare_raise_def format_exc_def)

theorem handleError_without_active_exception_witness:
  "stream (sink_handler ''x.log'') = Some (Base ''x.log'') \<and> io_fault env0 = None
   \<and> sys_exc_info env0 = None
   \<and> raised (handleError (sink_handler ''x.log'') record0 env0)
       = Some (PyExc ''RuntimeError'' ''No active exception to reraise'' [])
   \<and> file_events (final_state (handleError (sink_handler ''x.log'') record0 env0)) (Base ''x.log'')
       = [Write ''Exception in logging module:\<newline>'', Write ''NoneType: None\<newline>'',
          Write ''\<newline>'', Flush]"
  using handleError_without_active_exception
          [of "sink_handler ''x.log''" "Base ''x.log''" env0 record0]
  by (simp add: diagnostic_events_def nl_def)

section \<open>The trailing empty line\<close>

lemma split_butlast_last:
  "str_split nl (format_exc ei) = butlast (str_split nl (format_exc ei)) @ [[]]"
  using last_split_format_exc[of ei] append_butlast_last_id[of "str_split nl (format_exc ei)"]
  by simp




section \<open>Logging an exception\<close>

lemma log_exception_level:
  "log_exception m a None kw s = log_exception m a (Some CRITICAL) kw s"
  by (simp add: log_exception_def)

lemma log_exception_raises:
  assumes "sink_ready f s" and "isEnabledFor s lvl"
    and "getMessage (env s) (makeRecord s lvl m a kw) = Inl e"
  shows "log_exception m a (Some lvl) kw s
         = Raise e (logged f (diagnostic_events (format_exc (Some e))) s)"
  using assms by (simp add: log_exception_def log_sink)

lemma log_exception_disabled:
  assumes "sink_ready f s" and "\<not> isEnabledFor s lvl"
  shows "log_exception m a (Some lvl) kw s = Return () s"
  using assms by (simp add: log_exception_def log_sink log_lines_sink)

lemma open_append_str_mod_env0 [simp]:
  "str_mod (open_append g (env0\<lparr>sys_exc_info := x\<rparr>)) = pct_format"
  by simp






lemma log_keeps_exc_info:
  assumes "sink_ready f s"
  shows "sys_exc_info (env (final_state (log lvl m a kw s))) = sys_exc_info (env s)"
  by (simp add: log_sink[OF assms] split: sum.split)

text \<open>
  Claim C10. A traceback line is logged with no arguments, so its message is the line itself
  whatever the \<^verbatim>\<open>%\<close> operator would make of it. With the sink installed and working,
  once the call for the message has returned the rest of \<open>log_exception\<close> is the logging of
  the traceback lines, which does not depend on the caller's arguments, and logging any
  lines returns normally with every line verbatim in its record.
\<close>

theorem traceback_lines_logged_verbatim:
  "getMessage w (makeRecord s lvl line [] no_kwargs) = Inr line
   \<and> (sink_ready f s \<and> log lvl m a kw s = Return () s1 \<longrightarrow>
        log_exception m a (Some lvl) kw s
          = log_lines lvl (str_split nl (format_exc (sys_exc_info (env s)))) s1)
   \<and> (sink_ready f s \<longrightarrow>
        log_lines lvl ls s =
          Return () (if isEnabledFor s lvl
                     then logged f
                       (concat (map (\<lambda>l. [Write (spec_line (asctime (env s)) (getLevelName lvl)
                                                    (threadName (env s)) l @ ''\<newline>''), Flush]) ls)) s
                     else s))"
proof (intro conjI impI)
  show "getMessage w (makeRecord s lvl line [] no_kwargs) = Inr line"
    by simp
next
  assume a: "sink_ready f s \<and> log lvl m a kw s = Return () s1"
  with log_keeps_exc_info[of f s lvl m a kw] have "sys_exc_info (env s1) = sys_exc_info (env s)"
    by simp
  with a show "log_exception m a (Some lvl) kw s
          = log_lines lvl (str_split nl (format_exc (sys_exc_info (env s)))) s1"
    by (simp add: log_exception_def)
next
  assume "sink_ready f s"
  then show "log_lines lvl ls s =
          Return () (if isEnabledFor s lvl
                     then logged f
                       (concat (map (\<lambda>l. [Write (spec_line (asctime (env s)) (getLevelName lvl)
                                                    (threadName (env s)) l @ ''\<newline>''), Flush]) ls)) s
                     else s)"
    by (simp add: log_lines_sink record_events_def)
qed

theorem traceback_lines_logged_verbatim_witness:
  "sink_ready ''x.log'' state_handling
   \<and> str_mod (env state_handling) ''ValueError: bad 100%'' [PStr ''w''] = Inl (PyExc ''ValueError'' ''incomplete format'' [])
   \<and> getMessage (env state_handling) (makeRecord state_handling ERROR ''ValueError: bad 100%'' [] no_kwargs)
       = Inr ''ValueError: bad 100%''
   \<and> log ERROR ''failed in %s'' [PStr ''run''] no_kwargs state_handling
       = Return () (logged ''x.log''
           [Write ''2015-06-01 12:00:00,000 [ERROR] (MainThread) failed in run\<newline>'', Flush] state_handling)
   \<and> log_exception ''failed in %s'' [PStr ''run''] (Some ERROR) no_kwargs state_handling
       = log_lines ERROR (str_split nl (format_exc (Some value_error)))
           (logged ''x.log''
             [Write ''2015-06-01 12:00:00,000 [ERROR] (MainThread) failed in run\<newline>'', Flush] state_handling)
   \<and> log_lines ERROR [''ValueError: bad 100%'', ''%d and %s''] state_handling
       = Return () (logged ''x.log''
           [Write ''2015-06-01 12:00:00,000 [ERROR] (MainThread) ValueError: bad 100%\<newline>'', Flush,
            Write ''2015-06-01 12:00:00,000 [ERROR] (MainThread) %d and %s\<newline>'', Flush]
           state_handling)"
proof -
  have l: "log ERROR ''failed in %s'' [PStr ''run''] no_kwargs state_handling
       = Return () (logged ''x.log''
           [Write ''2015-06-01 12:00:00,000 [ERROR] (MainThread) failed in run\<newline>'', Flush] state_handling)"
    by (simp add: log_sink[OF state_handling_facts(1)] getMessage_def eval_defs)
  from traceback_lines_logged_verbatim
          [of "env state_handling" state_handling ERROR "''ValueError: bad 100%''"
              "''x.log''" "''failed in %s''" "[PStr ''run'']" no_kwargs
              "logged ''x.log''
                [Write ''2015-06-01 12:00:00,000 [ERROR] (MainThread) failed in run\<newline>'', Flush] state_handling"
              "[''ValueError: bad 100%'', ''%d and %s'']"] l
  show ?thesis
    by (simp add: spec_line_def getLevelName_def level_defs isEnabledFor_def)
qed

section \<open>The severity threshold and the lines of the log file\<close>

lemma file_lines_single: "nl \<notin> set x \<Longrightarrow> file_lines (x @ [nl]) = [x]"
proof -
  have "nl \<notin> set x \<Longrightarrow> str_split nl x = [x]"
    by (induction x) auto
  then show "nl \<notin> set x \<Longrightarrow> file_lines (x @ [nl]) = [x]"
    by (simp add: file_lines_def split_snoc_nl)
qed

lemma file_content_logged [simp]:
  "file_content (env (logged f evs s)) (Base f)
   = file_content (env s) (Base f) @ concat (map payload evs)"
  by (simp add: file_content_def)

lemma file_content_other:
  "g \<noteq> Base f \<Longrightarrow> file_content (env (logged f evs s)) g = file_content (env s) g"
  by (simp add: file_content_def)

lemma file_content_open [simp]: "file_content (open_append g w) g' = file_content w g'"
  by (simp add: file_content_def)

lemma file_content_env0 [simp]: "file_content env0 g = []"
  by (simp add: file_content_def)




section \<open>The size cap\<close>

lemma full_env_fields [simp]:
  "io_fault full_env = None"
  "file_content full_env (Base ''x.log'') = replicate LOG_MAX_SIZE CHR ''x''"
  "file_exists full_env g = (g = Base ''x.log'')"
  "asctime full_env = ''2015-06-01 12:00:00,000''" "threadName full_env = ''MainThread''"
  by (auto simp: full_env_def file_content_def file_events_def file_exists_def env0_def)

lemma file_exists_logged [simp]:
  "file_exists (env (logged f evs s)) g = (g = Base f \<or> file_exists (env s) g)"
  by (simp add: logged_def)

lemma file_exists_open [simp]:
  "file_exists (open_append g w) g' = (g' = g \<or> file_exists w g')"
  by (auto simp: open_append_def file_exists_def)

text \<open>
  Claim C5 at a log file that has reached the cap. The constant is 1,048,576, and the handler
  that \<open>init_logging\<close> installs has that \<open>maxBytes\<close> and the encoding
  \<^verbatim>\<open>utf-8\<close>; its \<open>backupCount\<close> is the constructor's default 0. With the file at
  1,048,576 bytes the next record makes \<open>shouldRollover\<close> answer yes, and
  \<open>doRollover\<close>, having no backups to keep, renames nothing and reopens the same file for
  appending: the record is appended, the active file is larger than the cap, and no rotated
  file exists.
\<close>

theorem no_rotation_at_the_cap:
  "LOG_MAX_SIZE = 1048576
   \<and> map maxBytes (root_handlers (init_logging ''x.log'' None (startup full_env))) = [1048576]
   \<and> map encoding (root_handlers (init_logging ''x.log'' None (startup full_env))) = [Some ''utf-8'']
   \<and> map backupCount (root_handlers (init_logging ''x.log'' None (startup full_env))) = [0]
   \<and> length (file_content (env (init_logging ''x.log'' None (startup full_env))) (Base ''x.log'')) = 1048576
   \<and> raised (log CRITICAL ''one more'' [] no_kwargs (init_logging ''x.log'' None (startup full_env))) = None
   \<and> file_content (env (final_state
          (log CRITICAL ''one more'' [] no_kwargs (init_logging ''x.log'' None (startup full_env)))))
        (Base ''x.log'')
       = replicate 1048576 CHR ''x'' @ ''2015-06-01 12:00:00,000 [CRITICAL] (MainThread) one more\<newline>''
   \<and> \<not> file_exists (env (final_state
          (log CRITICAL ''one more'' [] no_kwargs (init_logging ''x.log'' None (startup full_env)))))
        (Backup ''x.log'' 1)"
proof -
  have r: "sink_ready ''x.log'' (init_logging ''x.log'' None (startup full_env))"
    by (simp add: init_ready)
  have en: "isEnabledFor (init_logging ''x.log'' None (startup full_env)) CRITICAL"
    by (simp add: isEnabledFor_def init_level level_defs)
  have m: "LOG_MAX_SIZE = 1048576"
    by (simp add: LOG_MAX_SIZE_def)
  from en show ?thesis
    by (simp add: log_sink[OF r] init_handlers init_env m sink_handler_def
        record_events_def spec_line_def getLevelName_def level_defs)
qed

section \<open>The record format and the default threshold\<close>


section \<open>The single sink\<close>

lemma log_ready_form:
  assumes "sink_ready f s"
  shows "\<exists>evs. final_state (log lvl m a kw s) = logged f evs s"
proof -
  from assms have "logged f [] s = s"
    by (simp add: logged_Nil sink_ready_def)
  then have "\<exists>evs. s = logged f evs s"
    by metis
  then show ?thesis
    by (auto simp: log_sink[OF assms] split: sum.split)
qed

lemma log_lines_ready_form:
  assumes "sink_ready f s"
  shows "\<exists>evs. final_state (log_lines lvl ls s) = logged f evs s"
proof -
  from assms have "logged f [] s = s"
    by (simp add: logged_Nil sink_ready_def)
  then have "\<exists>evs. s = logged f evs s"
    by metis
  then show ?thesis
    by (auto simp: log_lines_sink[OF assms])
qed

lemma log_exception_ready_form:
  assumes "sink_ready f s"
  shows "\<exists>evs. final_state (log_exception m a lo kw s) = logged f evs s"
proof -
  define lvl where "lvl = (case lo of None \<Rightarrow> CRITICAL | Some l \<Rightarrow> l)"
  obtain evs1 where e1: "final_state (log lvl m a kw s) = logged f evs1 s"
    using log_ready_form[OF assms] by blast
  show ?thesis
  proof (cases "log lvl m a kw s")
    case (Raise e s')
    with e1 show ?thesis
      by (auto simp: log_exception_def lvl_def)
  next
    case (Return u s1)
    with e1 have s1: "s1 = logged f evs1 s" by simp
    with assms have "sink_ready f s1" by simp
    from log_lines_ready_form[OF this] obtain evs2 where
      "final_state (log_lines lvl (str_split nl (format_exc (sys_exc_info (env s1)))) s1) = logged f evs2 s1"
      by blast
    with Return s1 show ?thesis
      by (auto simp: log_exception_def lvl_def)
  qed
qed



end
